theory Spec2Isabelle
  imports Main
begin

section \<open>Values and validation results\<close>

text \<open>
  A TypeScript value of a field type \<open>T\<close>. The static type is erased at run time, where a
  value is \<open>undefined\<close>, \<open>null\<close> or a proper value; the widened types \<open>T | undefined\<close> and
  \<open>T | null\<close> are therefore the same HOL type.
\<close>

datatype 'a js = Undefined | Null | Defined 'a

text \<open>
  Modelled from the spec: the module \<open>@module/validation\<close> is not among the sources. A
  \<open>ValidationResult\<close> is a structured result, either a success or a failure carrying its
  error message; \<open>invalid\<close> builds the failure.
\<close>

datatype ValidationResult = Valid | Invalid string

definition invalid :: "string \<Rightarrow> ValidationResult" where
  "invalid reason = Invalid reason"

fun isValid :: "ValidationResult \<Rightarrow> bool" where
  "isValid Valid = True"
| "isValid (Invalid reason) = False"

text \<open>
  The interface \<open>Checks<T>\<close> (module \<open>./checks\<close>, not among the sources) has the one method
  \<open>validate(value: T): ValidationResult\<close>; an object of it is that method.
\<close>

type_synonym 'a Checks = "'a js \<Rightarrow> ValidationResult"

text \<open>
  Modelled from the spec: \<open>NoChecks\<close> (module \<open>./checks\<close>, not among the sources) is the
  no-op variant of \<open>Checks\<close>, which always succeeds.
\<close>

definition NoChecks :: "'a Checks" where
  "NoChecks = (\<lambda>value. Valid)"

text \<open>A check that accepts everything but \<open>undefined\<close>, used at concrete inputs.\<close>

definition definedCheck :: "'a Checks" where
  "definedCheck = (\<lambda>value. case value of Undefined \<Rightarrow> Invalid ''Value must be defined.'' | _ \<Rightarrow> Valid)"

section \<open>Likelihood\<close>

text \<open>
  Modelled from the spec: the module \<open>@module/inference\<close> is not among the sources. A
  \<open>Likelihood\<close> is a tagged value with three variants: explicit, implicit with a score, and
  none. The heuristic \<open>isImplicitId\<close> of the same module is a parameter of \<open>isKey\<close> below.
\<close>

datatype Likelihood = explicit_likelihood | implicit_likelihood int | no_likelihood

section \<open>Field descriptors\<close>

text \<open>\<open>BlankValue<T>\<close>: a union, because \<open>undefined\<close> and \<open>null\<close> can be valid blank values.\<close>

datatype 'a BlankValue = unspecified | explicit "'a js"

definition explicitBlankValue :: "'a js \<Rightarrow> 'a BlankValue" where
  "explicitBlankValue v = explicit v"

text \<open>\<open>FieldOpts<T>\<close>: every property is optional; \<open>None\<close> is a property left out.\<close>

record 'a FieldOpts =
  opt_blankValue :: "'a BlankValue option"
  opt_isReadable :: "bool option"
  opt_isWritable :: "bool option"
  opt_useAsKey :: "bool option"
  opt_isNullable :: "bool option"
  opt_isOptional :: "bool option"
  opt_checks :: "'a Checks option"

text \<open>The object literal \<open>{}\<close>; the builders below set properties of it.\<close>

definition no_opts :: "'a FieldOpts" where
  "no_opts = \<lparr> opt_blankValue = None, opt_isReadable = None, opt_isWritable = None,
               opt_useAsKey = None, opt_isNullable = None, opt_isOptional = None,
               opt_checks = None \<rparr>"

text \<open>
  An object of a concrete subclass of \<open>AnyField<T, Self>\<close>. The fields \<open>p_x\<close> are the private
  readonly fields \<open>_x\<close> of the base class. The last two are what the concrete class supplies:
  the abstract getter \<open>defaultBlankValue\<close>, and the getter \<open>keyKind\<close>, which is \<open>null\<close>
  (\<open>None\<close>) in the base class and overridden by the key-capable classes. The type \<open>'k\<close> is
  \<open>KeyKind\<close>, whose declaration is not among the sources.
\<close>

record ('a, 'k) AnyField =
  p_blankValue :: "'a BlankValue"
  p_isReadable :: bool
  p_isWritable :: bool
  p_isNullable :: bool
  p_isOptional :: bool
  p_useAsKey :: bool
  p_checks :: "'a Checks"
  defaultBlankValue :: "'a js"
  keyKind :: "'k option"

text \<open>\<open>a ?? b ?? c\<close>, where \<open>a\<close> and \<open>b\<close> may be \<open>undefined\<close>.\<close>

definition coalesce :: "'x option \<Rightarrow> 'x option \<Rightarrow> 'x \<Rightarrow> 'x" where
  "coalesce a b c = (case a of Some x \<Rightarrow> x | None \<Rightarrow> (case b of Some y \<Rightarrow> y | None \<Rightarrow> c))"

text \<open>
  The protected constructor \<open>AnyField(copyFrom?, options?)\<close>, run for an object of the concrete
  class whose \<open>defaultBlankValue\<close> and \<open>keyKind\<close> are \<open>dbv\<close> and \<open>kk\<close>. \<open>options?.x\<close> is
  \<open>Option.bind options opt_x\<close> and \<open>copyFrom?._x\<close> is \<open>map_option p_x copyFrom\<close>.
\<close>

definition AnyField_constructor ::
  "'a js \<Rightarrow> 'k option \<Rightarrow> ('a, 'k) AnyField option \<Rightarrow> 'a FieldOpts option \<Rightarrow> ('a, 'k) AnyField" where
  "AnyField_constructor dbv kk copyFrom options =
     \<lparr> p_blankValue = coalesce (Option.bind options opt_blankValue) (map_option p_blankValue copyFrom) unspecified,
       p_isReadable = coalesce (Option.bind options opt_isReadable) (map_option p_isReadable copyFrom) True,
       p_isWritable = coalesce (Option.bind options opt_isWritable) (map_option p_isWritable copyFrom) True,
       p_isNullable = coalesce (Option.bind options opt_isNullable) (map_option p_isNullable copyFrom) False,
       p_isOptional = coalesce (Option.bind options opt_isOptional) (map_option p_isOptional copyFrom) False,
       p_useAsKey = coalesce (Option.bind options opt_useAsKey) (map_option p_useAsKey copyFrom) False,
       p_checks = coalesce (Option.bind options opt_checks) (map_option p_checks copyFrom) NoChecks,
       defaultBlankValue = dbv,
       keyKind = kk \<rparr>"

text \<open>
  Modelled from the spec: \<open>cloneAsSelf\<close> is abstract in the base class and its implementations
  are not among the sources. By its documentation it clones this object, passing \<open>options\<close> to
  the parent constructor: a new object of the same concrete class, built by the constructor
  above with this object as \<open>copyFrom\<close>.
\<close>

definition cloneAsSelf :: "('a, 'k) AnyField \<Rightarrow> 'a FieldOpts \<Rightarrow> ('a, 'k) AnyField" where
  "cloneAsSelf this options =
     AnyField_constructor (defaultBlankValue this) (keyKind this) (Some this) (Some options)"

subsection \<open>The implementation of \<open>Field<T>\<close>\<close>

definition blankValue :: "('a, 'k) AnyField \<Rightarrow> 'a js" where
  "blankValue this = (case p_blankValue this of explicit v \<Rightarrow> v | unspecified \<Rightarrow> defaultBlankValue this)"

definition isReadable :: "('a, 'k) AnyField \<Rightarrow> bool" where
  "isReadable this = p_isReadable this"

definition isWritable :: "('a, 'k) AnyField \<Rightarrow> bool" where
  "isWritable this = p_isWritable this"

definition isNullable :: "('a, 'k) AnyField \<Rightarrow> bool" where
  "isNullable this = p_isNullable this"

definition isOptional :: "('a, 'k) AnyField \<Rightarrow> bool" where
  "isOptional this = p_isOptional this"

definition currentChecks :: "('a, 'k) AnyField \<Rightarrow> 'a Checks" where
  "currentChecks this = p_checks this"

text \<open>
  \<open>isKey(hints)\<close>; the heuristic \<open>isImplicitId\<close> is a parameter. \<open>this.keyKind == null\<close> is the
  loose comparison, true of \<open>null\<close> and \<open>undefined\<close>, both \<open>None\<close> here.
\<close>

definition isKey :: "('h \<Rightarrow> Likelihood) \<Rightarrow> ('a, 'k) AnyField \<Rightarrow> 'h \<Rightarrow> Likelihood" where
  "isKey isImplicitId this hints =
     (if p_useAsKey this then explicit_likelihood
      else if keyKind this = None then implicit_likelihood 0
      else isImplicitId hints)"

definition validate :: "('a, 'k) AnyField \<Rightarrow> 'a js \<Rightarrow> ValidationResult" where
  "validate this v =
     (if isOptional this \<or> v \<noteq> Undefined then p_checks this v
      else invalid ''Required value missing.'')"

subsection \<open>Builder methods\<close>

text \<open>
  A builder returns the lines it writes with \<open>console.warn\<close>, in order, and the object it
  constructs.
\<close>

definition withBlankValue :: "('a, 'k) AnyField \<Rightarrow> 'a js \<Rightarrow> string list \<times> ('a, 'k) AnyField" where
  "withBlankValue this v =
     ((case p_blankValue this of
         unspecified \<Rightarrow> []
       | explicit old \<Rightarrow> [''withBlankValue modifier used twice on the same field'']),
      cloneAsSelf this (no_opts \<lparr> opt_blankValue := Some (explicitBlankValue v) \<rparr>))"

definition readOnly :: "('a, 'k) AnyField \<Rightarrow> string list \<times> ('a, 'k) AnyField" where
  "readOnly this =
     ((if \<not> p_isReadable this then [''readOnly modifier used on non-readable field''] else []),
      cloneAsSelf this (no_opts \<lparr> opt_isWritable := Some False, opt_isReadable := Some True \<rparr>))"

definition writeOnly :: "('a, 'k) AnyField \<Rightarrow> string list \<times> ('a, 'k) AnyField" where
  "writeOnly this =
     ((if \<not> p_isWritable this then [''writeOnly modifier used on non-writable field''] else []),
      cloneAsSelf this (no_opts \<lparr> opt_isWritable := Some True, opt_isReadable := Some False \<rparr>))"

definition asKey :: "('a, 'k) AnyField \<Rightarrow> string list \<times> ('a, 'k) AnyField" where
  "asKey this =
     ((if p_useAsKey this then [''asKey modifier used twice on the same field''] else []),
      cloneAsSelf this (no_opts \<lparr> opt_useAsKey := Some True \<rparr>))"

text \<open>
  A descriptor of a string-like field class (default blank value the empty string, no key
  kind) with no option set, and one of a key-capable class, used at concrete inputs.
\<close>

definition plainField :: "(string, nat) AnyField" where
  "plainField = AnyField_constructor (Defined '''') None None None"

definition keyField :: "(int, nat) AnyField" where
  "keyField = AnyField_constructor Null (Some 0) None None"

definition checkedField :: "(string, nat) AnyField" where
  "checkedField = AnyField_constructor (Defined '''') None None (Some (no_opts \<lparr> opt_checks := Some definedCheck \<rparr>))"

section \<open>Descriptors as objects\<close>

text \<open>
  Descriptors are objects, handled by reference. The store holds the objects constructed so
  far; a reference is the position of its object, and \<open>s[r := obj]\<close> would assign to the
  fields of the object at \<open>r\<close>. Dereferencing a reference that is not in use gives \<open>None\<close>.
\<close>

type_synonym ('a, 'k) store = "('a, 'k) AnyField list"

definition deref :: "('a, 'k) store \<Rightarrow> nat \<Rightarrow> ('a, 'k) AnyField option" where
  "deref s r = (if r < length s then Some (s ! r) else None)"

text \<open>The allocation of \<open>new\<close>: the object is put at a reference not in use.\<close>

definition new_object :: "('a, 'k) store \<Rightarrow> ('a, 'k) AnyField \<Rightarrow> nat \<times> ('a, 'k) store" where
  "new_object s obj = (length s, s @ [obj])"

text \<open>
  The expression \<open>new C(copyFrom, options)\<close> for a concrete class \<open>C\<close> whose \<open>defaultBlankValue\<close>
  and \<open>keyKind\<close> are \<open>dbv\<close> and \<open>kk\<close>, with \<open>copyFrom\<close> given by reference. The constructor
  reads the fields of \<open>copyFrom\<close> and assigns those of the new object only.
\<close>

definition AnyField_new ::
  "('a, 'k) store \<Rightarrow> 'a js \<Rightarrow> 'k option \<Rightarrow> nat option \<Rightarrow> 'a FieldOpts option
     \<Rightarrow> (nat \<times> ('a, 'k) store) option" where
  "AnyField_new s dbv kk copyFrom options =
     (case copyFrom of
        None \<Rightarrow> Some (new_object s (AnyField_constructor dbv kk None options))
      | Some c \<Rightarrow>
          (case deref s c of
             None \<Rightarrow> None
           | Some obj \<Rightarrow> Some (new_object s (AnyField_constructor dbv kk (Some obj) options))))"

text \<open>
  Modelled from the spec: \<open>cloneAsSelf\<close>, abstract in the base class with no implementation
  among the sources, on references. By its documentation it clones this object, passing
  \<open>options\<close> to the parent constructor: \<open>new C(this, options)\<close> for the class \<open>C\<close> of \<open>this\<close>.
\<close>

definition cloneAsSelf_at ::
  "('a, 'k) store \<Rightarrow> nat \<Rightarrow> 'a FieldOpts \<Rightarrow> (nat \<times> ('a, 'k) store) option" where
  "cloneAsSelf_at s this options =
     (case deref s this of
        None \<Rightarrow> None
      | Some obj \<Rightarrow> AnyField_new s (defaultBlankValue obj) (keyKind obj) (Some this) (Some options))"

text \<open>
  The builder methods on references: each reads a field of \<open>this\<close>, warns if the call is
  redundant, and returns what \<open>cloneAsSelf\<close> returns. The result is the warnings, the
  reference returned and the store afterwards.
\<close>

definition withBlankValue_at ::
  "('a, 'k) store \<Rightarrow> nat \<Rightarrow> 'a js \<Rightarrow> (string list \<times> nat \<times> ('a, 'k) store) option" where
  "withBlankValue_at s this v =
     (case deref s this of
        None \<Rightarrow> None
      | Some obj \<Rightarrow>
          (case cloneAsSelf_at s this (no_opts \<lparr> opt_blankValue := Some (explicitBlankValue v) \<rparr>) of
             None \<Rightarrow> None
           | Some (r', s') \<Rightarrow>
               Some ((case p_blankValue obj of
                        unspecified \<Rightarrow> []
                      | explicit old \<Rightarrow> [''withBlankValue modifier used twice on the same field'']),
                     r', s')))"

definition readOnly_at ::
  "('a, 'k) store \<Rightarrow> nat \<Rightarrow> (string list \<times> nat \<times> ('a, 'k) store) option" where
  "readOnly_at s this =
     (case deref s this of
        None \<Rightarrow> None
      | Some obj \<Rightarrow>
          (case cloneAsSelf_at s this (no_opts \<lparr> opt_isWritable := Some False, opt_isReadable := Some True \<rparr>) of
             None \<Rightarrow> None
           | Some (r', s') \<Rightarrow>
               Some ((if \<not> p_isReadable obj then [''readOnly modifier used on non-readable field''] else []),
                     r', s')))"

definition writeOnly_at ::
  "('a, 'k) store \<Rightarrow> nat \<Rightarrow> (string list \<times> nat \<times> ('a, 'k) store) option" where
  "writeOnly_at s this =
     (case deref s this of
        None \<Rightarrow> None
      | Some obj \<Rightarrow>
          (case cloneAsSelf_at s this (no_opts \<lparr> opt_isWritable := Some True, opt_isReadable := Some False \<rparr>) of
             None \<Rightarrow> None
           | Some (r', s') \<Rightarrow>
               Some ((if \<not> p_isWritable obj then [''writeOnly modifier used on non-writable field''] else []),
                     r', s')))"

definition asKey_at ::
  "('a, 'k) store \<Rightarrow> nat \<Rightarrow> (string list \<times> nat \<times> ('a, 'k) store) option" where
  "asKey_at s this =
     (case deref s this of
        None \<Rightarrow> None
      | Some obj \<Rightarrow>
          (case cloneAsSelf_at s this (no_opts \<lparr> opt_useAsKey := Some True \<rparr>) of
             None \<Rightarrow> None
           | Some (r', s') \<Rightarrow>
               Some ((if p_useAsKey obj then [''asKey modifier used twice on the same field''] else []),
                     r', s')))"

text \<open>The four builder operations, to speak of all of them at once.\<close>

datatype 'a builder = WithBlankValue "'a js" | ReadOnly | WriteOnly | AsKey

fun build :: "'a builder \<Rightarrow> ('a, 'k) AnyField \<Rightarrow> string list \<times> ('a, 'k) AnyField" where
  "build (WithBlankValue v) this = withBlankValue this v"
| "build ReadOnly this = readOnly this"
| "build WriteOnly this = writeOnly this"
| "build AsKey this = asKey this"

fun build_at ::
  "'a builder \<Rightarrow> ('a, 'k) store \<Rightarrow> nat \<Rightarrow> (string list \<times> nat \<times> ('a, 'k) store) option" where
  "build_at (WithBlankValue v) s this = withBlankValue_at s this v"
| "build_at ReadOnly s this = readOnly_at s this"
| "build_at WriteOnly s this = writeOnly_at s this"
| "build_at AsKey s this = asKey_at s this"

section \<open>Configuration\<close>

text \<open>
  The type \<open>'h\<close> is \<open>BadResponseHandler\<close>, a function type whose declaration is not among the
  sources. An override of a property is the reset value \<open>'default'\<close> or a literal value of
  the property's type; \<open>None\<close> in \<open>ConfigOverride\<close> is a property left out.
\<close>

datatype 'h ConfigOption = resetValue | Literal 'h

record 'h ConfigOverride =
  ov_badResponseHandler :: "'h ConfigOption option"

text \<open>
  An object implementing \<open>Config\<close>: a plain object with the property \<open>badResponseHandler\<close>, or
  a \<open>DecoratorConfig\<close> with its fields \<open>_wrapped\<close> and \<open>_overrides\<close>.
\<close>

datatype 'h Config = ConfigObject 'h | DecoratorConfig "'h Config" "'h ConfigOverride"

text \<open>
  Modelled from the spec: \<open>defaultConfig\<close> (module \<open>@module/config/default\<close>, not among the
  sources) is the built-in default configuration, a plain object whose \<open>badResponseHandler\<close>
  is the built-in default handler, here the parameter \<open>d\<close>.
\<close>

definition defaultConfig :: "'h \<Rightarrow> 'h Config" where
  "defaultConfig d = ConfigObject d"

text \<open>
  The property \<open>badResponseHandler\<close> of a \<open>Config\<close>. For a \<open>DecoratorConfig\<close> it is the getter,
  which calls \<open>overrideConfigProperty('badResponseHandler')\<close>; \<open>defaultConfig[p]\<close> is \<open>d\<close>.
\<close>

fun badResponseHandler :: "'h \<Rightarrow> 'h Config \<Rightarrow> 'h" where
  "badResponseHandler d (ConfigObject h) = h"
| "badResponseHandler d (DecoratorConfig wrapped overrides) =
     (let finalValue = badResponseHandler d wrapped
      in case ov_badResponseHandler overrides of
           Some resetValue \<Rightarrow> d
         | Some (Literal v) \<Rightarrow> v
         | None \<Rightarrow> finalValue)"

text \<open>The class \<open>GlobalConfig\<close>, its one instance being the state of the process.\<close>

record 'h GlobalConfig =
  p_current :: "'h Config"

definition GlobalConfig_constructor :: "'h \<Rightarrow> 'h GlobalConfig" where
  "GlobalConfig_constructor d = \<lparr> p_current = defaultConfig d \<rparr>"

definition GlobalConfig_set :: "'h \<Rightarrow> 'h ConfigOverride \<Rightarrow> 'h GlobalConfig \<Rightarrow> 'h GlobalConfig" where
  "GlobalConfig_set d options this = this \<lparr> p_current := DecoratorConfig (defaultConfig d) options \<rparr>"

definition GlobalConfig_badResponseHandler :: "'h \<Rightarrow> 'h GlobalConfig \<Rightarrow> 'h" where
  "GlobalConfig_badResponseHandler d this = badResponseHandler d (p_current this)"

text \<open>
  \<open>globalConfig(options)\<close> and \<open>getGlobalConfig()\<close>, with the module's object \<open>__glob__\<close> passed
  as the state \<open>glob\<close>. \<open>getGlobalConfig\<close> returns that object itself.
\<close>

definition globalConfig :: "'h \<Rightarrow> 'h ConfigOverride \<Rightarrow> 'h GlobalConfig \<Rightarrow> 'h GlobalConfig" where
  "globalConfig d options glob = GlobalConfig_set d options glob"

definition getGlobalConfig :: "'h GlobalConfig \<Rightarrow> 'h GlobalConfig" where
  "getGlobalConfig glob = glob"

section \<open>Collection manager\<close>

text \<open>A proper value of an item's property: a number or a string.\<close>

datatype prim = Num int | Str string

text \<open>An item is an object; \<open>item[k]\<close> of a property that the object lacks is \<open>undefined\<close>.\<close>

type_synonym item = "string \<rightharpoonup> prim js"

definition getProperty :: "item \<Rightarrow> string \<Rightarrow> prim js" where
  "getProperty item k = (case item k of None \<Rightarrow> Undefined | Some v \<Rightarrow> v)"

text \<open>
  The fields \<open>_key\<close> and \<open>_keyKind\<close> of a \<open>CollectionManager\<close>, as its constructor leaves them
  (the interpreter that finds them is not among the sources).
\<close>

record 'k CollectionManager =
  p_key :: string
  p_keyKind :: 'k

definition CollectionManager_key :: "'k CollectionManager \<Rightarrow> string" where
  "CollectionManager_key this = p_key this"

definition isNew :: "'k CollectionManager \<Rightarrow> item \<Rightarrow> bool" where
  "isNew this item = (getProperty item (CollectionManager_key this) = Null)"

definition idManager :: "nat CollectionManager" where
  "idManager = \<lparr> p_key = ''id'', p_keyKind = 0 \<rparr>"

section \<open>Value mappers\<close>

text \<open>An exception thrown, with its message.\<close>

datatype exn = Exception string

text \<open>
  The class \<open>JsonRequestBody\<close> is not among the sources: an object of it is the value given to
  its constructor, the payload.
\<close>

datatype 'u RequestBodyOrParams = JsonRequestBody 'u

text \<open>
  A concrete \<open>ValueMapper<T>\<close> is its abstract members; the two hooks may throw. The type \<open>'u\<close>
  is the wire representation (\<open>unknown\<close> in the source).
\<close>

record ('t, 'u) ValueMapper =
  expectedResponseType :: string
  packValue :: "'t \<Rightarrow> exn + 'u"
  unpackValue :: "'u \<Rightarrow> exn + 't"

definition pack :: "('t, 'u) ValueMapper \<Rightarrow> 't \<Rightarrow> exn + 'u RequestBodyOrParams" where
  "pack this v =
     (case packValue this v of
        Inl e \<Rightarrow> Inl e
      | Inr payload \<Rightarrow> Inr (JsonRequestBody payload))"

text \<open>A mapper of integers that packs the non-negative ones only, used at concrete inputs.\<close>

definition natMapper :: "(int, nat) ValueMapper" where
  "natMapper = \<lparr> expectedResponseType = ''number'',
                 packValue = (\<lambda>i. if i < 0 then Inl (Exception ''negative'') else Inr (nat i)),
                 unpackValue = (\<lambda>n. Inr (int n)) \<rparr>"

section \<open>Theorems\<close>

lemma coalesce_Some [simp]: "coalesce (Some x) b c = x"
  by (simp add: coalesce_def)

lemma coalesce_None_Some [simp]: "coalesce None (Some y) c = y"
  by (simp add: coalesce_def)

lemma coalesce_None_None [simp]: "coalesce None None c = c"
  by (simp add: coalesce_def)

text \<open>
  C1 (amended). For every optional field descriptor (\<open>isOptional\<close> true, the state after
  \<open>optional\<close>), \<open>validate\<close> with the absent value \<open>undefined\<close> never answers "required value
  missing" on its own account: it applies the configured checks to \<open>undefined\<close> and returns
  exactly their result. It succeeds if and only if the checks accept \<open>undefined\<close>.
\<close>

theorem validate_optional_absent:
  "isOptional this \<Longrightarrow> validate this Undefined = p_checks this Undefined"
  by (simp add: validate_def)

theorem validate_optional_absent_witness:
  "isOptional (AnyField_constructor (Defined '''') (None :: nat option) None
       (Some (no_opts \<lparr> opt_isOptional := Some True, opt_checks := Some definedCheck \<rparr>)))
   \<and> validate (AnyField_constructor (Defined '''') (None :: nat option) None
       (Some (no_opts \<lparr> opt_isOptional := Some True, opt_checks := Some definedCheck \<rparr>))) Undefined
     = Invalid ''Value must be defined.''"
  using validate_optional_absent [of "AnyField_constructor (Defined '''') (None :: nat option) None
       (Some (no_opts \<lparr> opt_isOptional := Some True, opt_checks := Some definedCheck \<rparr>))"]
  by (simp add: isOptional_def AnyField_constructor_def no_opts_def definedCheck_def)

text \<open>
  C1 as stated fails: an optional field descriptor whose checks reject \<open>undefined\<close> does not
  validate the absent value successfully, because the checks are applied.
\<close>

theorem validate_optional_absent_counterexample:
  "isOptional (AnyField_constructor (Defined '''') (None :: nat option) None
       (Some (no_opts \<lparr> opt_isOptional := Some True, opt_checks := Some definedCheck \<rparr>)))
   \<and> \<not> isValid (validate (AnyField_constructor (Defined '''') (None :: nat option) None
       (Some (no_opts \<lparr> opt_isOptional := Some True, opt_checks := Some definedCheck \<rparr>))) Undefined)"
  by (simp add: validate_def isOptional_def AnyField_constructor_def no_opts_def definedCheck_def)

text \<open>
  C2. For every non-optional field descriptor, whatever its checks, \<open>validate\<close> with the
  absent value \<open>undefined\<close> returns the invalid result carrying the error
  "Required value missing.".
\<close>

theorem validate_required_absent:
  "\<not> isOptional this \<Longrightarrow>
     validate this Undefined = invalid ''Required value missing.''
     \<and> \<not> isValid (validate this Undefined)"
  by (simp add: validate_def invalid_def)

theorem validate_required_absent_witness:
  "\<not> isOptional plainField
   \<and> validate plainField Undefined = invalid ''Required value missing.''
   \<and> \<not> isValid (validate plainField Undefined)"
  using validate_required_absent [of plainField]
  by (simp add: plainField_def isOptional_def AnyField_constructor_def invalid_def)

text \<open>
  C3. For every field descriptor and every hints argument, \<open>isKey(hints)\<close> is the explicit
  likelihood when the field was marked with \<open>asKey\<close>; otherwise it is the implicit likelihood
  with score 0 when the field's \<open>keyKind\<close> is null; otherwise it is exactly the result of
  the implicit-id heuristic on the hints.
\<close>

theorem isKey_result:
  "isKey isImplicitId (snd (asKey this)) hints = explicit_likelihood
   \<and> isKey isImplicitId this hints =
       (if p_useAsKey this then explicit_likelihood
        else if keyKind this = None then implicit_likelihood 0
        else isImplicitId hints)"
  by (simp add: isKey_def asKey_def cloneAsSelf_def AnyField_constructor_def no_opts_def)

theorem isKey_result_witness:
  "isKey (\<lambda>hints :: nat. implicit_likelihood (int hints)) (snd (asKey keyField)) 5 = explicit_likelihood
   \<and> isKey (\<lambda>hints :: nat. implicit_likelihood (int hints)) plainField 5 = implicit_likelihood 0
   \<and> isKey (\<lambda>hints :: nat. implicit_likelihood (int hints)) keyField 5 = implicit_likelihood 5"
  using isKey_result [of "\<lambda>hints :: nat. implicit_likelihood (int hints)" keyField 5]
    isKey_result [of "\<lambda>hints :: nat. implicit_likelihood (int hints)" plainField 5]
  by (simp add: keyField_def plainField_def AnyField_constructor_def)

text \<open>
  C4. After \<open>globalConfig({badResponseHandler: fn})\<close> the global configuration's
  \<open>badResponseHandler\<close> is exactly \<open>fn\<close>; a following
  \<open>globalConfig({badResponseHandler: 'default'})\<close> makes it the built-in default handler, and
  so does a following \<open>globalConfig({})\<close>, because each call puts a decorator over the
  built-in default configuration, whatever the configuration was before.
\<close>

theorem globalConfig_layers_over_default:
  "GlobalConfig_badResponseHandler d
     (getGlobalConfig (globalConfig d \<lparr> ov_badResponseHandler = Some (Literal fn) \<rparr> glob)) = fn
   \<and> GlobalConfig_badResponseHandler d
       (getGlobalConfig (globalConfig d \<lparr> ov_badResponseHandler = Some resetValue \<rparr>
          (globalConfig d \<lparr> ov_badResponseHandler = Some (Literal fn) \<rparr> glob))) = d
   \<and> GlobalConfig_badResponseHandler d
       (getGlobalConfig (globalConfig d \<lparr> ov_badResponseHandler = None \<rparr>
          (globalConfig d \<lparr> ov_badResponseHandler = Some (Literal fn) \<rparr> glob))) = d
   \<and> p_current (globalConfig d options glob) = DecoratorConfig (defaultConfig d) options
   \<and> badResponseHandler d (defaultConfig d) = d
   \<and> GlobalConfig_badResponseHandler d (getGlobalConfig (GlobalConfig_constructor d)) = d"
  by (simp add: GlobalConfig_badResponseHandler_def getGlobalConfig_def globalConfig_def
      GlobalConfig_set_def GlobalConfig_constructor_def defaultConfig_def)

text \<open>
  C5. For every field descriptor, the descriptor returned by \<open>readOnly\<close> is readable and not
  writable, the one returned by \<open>writeOnly\<close> is writable and not readable, and of the two
  applied in sequence the last one decides.
\<close>

theorem readOnly_writeOnly_last_wins:
  "isReadable (snd (readOnly this)) \<and> \<not> isWritable (snd (readOnly this))
   \<and> isWritable (snd (writeOnly this)) \<and> \<not> isReadable (snd (writeOnly this))
   \<and> isWritable (snd (writeOnly (snd (readOnly this))))
   \<and> \<not> isReadable (snd (writeOnly (snd (readOnly this))))
   \<and> isReadable (snd (readOnly (snd (writeOnly this))))
   \<and> \<not> isWritable (snd (readOnly (snd (writeOnly this))))"
  by (simp add: isReadable_def isWritable_def readOnly_def writeOnly_def cloneAsSelf_def
      AnyField_constructor_def no_opts_def)

lemma cloneAsSelf_at_Some:
  "deref s r = Some A \<Longrightarrow>
     cloneAsSelf_at s r options = Some (length s, s @ [cloneAsSelf A options])"
  by (simp add: cloneAsSelf_at_def AnyField_new_def new_object_def cloneAsSelf_def)

lemma build_at_Some:
  assumes "deref s r = Some A"
  shows "build_at b s r = Some (fst (build b A), length s, s @ [snd (build b A)])"
proof (cases b)
  case (WithBlankValue v)
  then show ?thesis
    using assms by (simp add: withBlankValue_at_def withBlankValue_def cloneAsSelf_at_Some)
next
  case ReadOnly
  then show ?thesis
    using assms by (simp add: readOnly_at_def readOnly_def cloneAsSelf_at_Some)
next
  case WriteOnly
  then show ?thesis
    using assms by (simp add: writeOnly_at_def writeOnly_def cloneAsSelf_at_Some)
next
  case AsKey
  then show ?thesis
    using assms by (simp add: asKey_at_def asKey_def cloneAsSelf_at_Some)
qed

text \<open>
  C6. For every descriptor \<open>A\<close> in the store and every builder operation (\<open>withBlankValue\<close>,
  \<open>readOnly\<close>, \<open>writeOnly\<close>, \<open>asKey\<close>), the operation returns a reference to a new object, one
  that was not in use before and is not \<open>A\<close>'s, holding the descriptor that the operation
  builds; and the object at every other reference, \<open>A\<close> among them, is what it was: all the
  fields of \<open>A\<close>, and so all its observable attributes (\<open>blankValue\<close>, \<open>isReadable\<close>,
  \<open>isWritable\<close>, \<open>isNullable\<close>, \<open>isOptional\<close>, the key marking, the checks), are unchanged.
\<close>

theorem builders_leave_original_unchanged:
  assumes "deref s r = Some A"
  shows "\<exists>warned r' s'. build_at b s r = Some (warned, r', s')
           \<and> r' \<noteq> r \<and> deref s r' = None
           \<and> warned = fst (build b A)
           \<and> deref s' r' = Some (snd (build b A))
           \<and> deref s' r = Some A
           \<and> (\<forall>q. q \<noteq> r' \<longrightarrow> deref s' q = deref s q)
           \<and> map_option blankValue (deref s' r) = Some (blankValue A)
           \<and> map_option isReadable (deref s' r) = Some (isReadable A)
           \<and> map_option isWritable (deref s' r) = Some (isWritable A)
           \<and> map_option isNullable (deref s' r) = Some (isNullable A)
           \<and> map_option isOptional (deref s' r) = Some (isOptional A)
           \<and> map_option p_useAsKey (deref s' r) = Some (p_useAsKey A)
           \<and> map_option currentChecks (deref s' r) = Some (currentChecks A)"
proof -
  from assms have lt: "r < length s" and A: "s ! r = A"
    by (auto simp: deref_def split: if_splits)
  have run: "build_at b s r = Some (fst (build b A), length s, s @ [snd (build b A)])"
    using assms by (rule build_at_Some)
  have old: "deref (s @ [snd (build b A)]) r = Some A"
    using lt A by (simp add: deref_def nth_append)
  have frame: "\<forall>q. q \<noteq> length s \<longrightarrow> deref (s @ [snd (build b A)]) q = deref s q"
    by (auto simp: deref_def nth_append)
  have new: "deref (s @ [snd (build b A)]) (length s) = Some (snd (build b A))"
    by (simp add: deref_def)
  have fresh: "length s \<noteq> r \<and> deref s (length s) = None"
    using lt by (simp add: deref_def)
  show ?thesis
    using run old frame new fresh by simp
qed

theorem builders_leave_original_unchanged_witness:
  "deref [plainField] 0 = Some plainField
   \<and> (\<exists>warned r' s'. build_at ReadOnly [plainField] 0 = Some (warned, r', s')
         \<and> r' \<noteq> 0 \<and> deref s' 0 = Some plainField
         \<and> deref s' 0 = deref [plainField] 0
         \<and> map_option isWritable (deref s' 0) = Some True
         \<and> map_option isWritable (deref s' r') = Some False)"
proof -
  have h: "deref [plainField] 0 = Some plainField"
    by (simp add: deref_def)
  have w: "isWritable plainField"
    by (simp add: isWritable_def plainField_def AnyField_constructor_def)
  have n: "\<not> isWritable (snd (build ReadOnly plainField))"
    by (simp add: isWritable_def readOnly_def cloneAsSelf_def AnyField_constructor_def no_opts_def)
  from builders_leave_original_unchanged [OF h, of ReadOnly]
  obtain warned r' s' where
    "build_at ReadOnly [plainField] 0 = Some (warned, r', s')" "r' \<noteq> 0"
    "deref s' r' = Some (snd (build ReadOnly plainField))" "deref s' 0 = Some plainField"
    by blast
  with h w n show ?thesis
    by simp
qed

text \<open>
  C7. For every field descriptor and every value \<open>v\<close>, the \<open>blankValue\<close> of the descriptor
  returned by \<open>withBlankValue(v)\<close> is exactly \<open>v\<close>, whatever the default blank value of the
  concrete field class and whatever blank value was set before.
\<close>

theorem withBlankValue_blankValue:
  "blankValue (snd (withBlankValue this v)) = v"
  by (simp add: blankValue_def withBlankValue_def cloneAsSelf_def AnyField_constructor_def
      no_opts_def explicitBlankValue_def)

text \<open>
  C8. For every collection manager and every item, \<open>isNew(item)\<close> is true if and only if the
  item's key property is \<open>null\<close>; so \<open>isNew({id: null, name: 'x'})\<close> is true and
  \<open>isNew({id: 7, name: 'x'})\<close> is false for a manager whose key is \<open>id\<close>.
\<close>

theorem isNew_iff_key_null:
  "(isNew manager item \<longleftrightarrow> getProperty item (CollectionManager_key manager) = Null)
   \<and> isNew idManager [''id'' \<mapsto> Null, ''name'' \<mapsto> Defined (Str ''x'')]
   \<and> \<not> isNew idManager [''id'' \<mapsto> Defined (Num 7), ''name'' \<mapsto> Defined (Str ''x'')]"
  by (simp add: isNew_def getProperty_def CollectionManager_key_def idManager_def)

text \<open>
  C9. For every value mapper and every value \<open>v\<close> on which \<open>packValue\<close> succeeds, \<open>pack(v)\<close>
  succeeds and returns a JSON request body whose payload is exactly the result of
  \<open>packValue(v)\<close>.
\<close>

theorem pack_succeeds:
  "packValue mapper v = Inr payload \<Longrightarrow> pack mapper v = Inr (JsonRequestBody payload)"
  by (simp add: pack_def)

theorem pack_succeeds_witness:
  "packValue natMapper 7 = Inr 7 \<and> pack natMapper 7 = Inr (JsonRequestBody 7)"
proof -
  have h: "packValue natMapper 7 = Inr 7"
    by (simp add: natMapper_def)
  from pack_succeeds [OF h] h show ?thesis
    by simp
qed

text \<open>
  C10. For every field descriptor, only \<open>undefined\<close> counts as absent in \<open>validate\<close>: a
  non-optional field validating \<open>null\<close>, or any value other than \<open>undefined\<close>, does not answer
  "required value missing" but returns exactly the result of the configured checks on that
  value.
\<close>

theorem validate_null_delegates:
  "\<not> isOptional this \<Longrightarrow>
     validate this Null = p_checks this Null
     \<and> (\<forall>v. v \<noteq> Undefined \<longrightarrow> validate this v = p_checks this v)"
  by (simp add: validate_def)

theorem validate_null_delegates_witness:
  "\<not> isOptional checkedField
   \<and> validate checkedField Null = Valid
   \<and> validate checkedField (Defined ''x'') = Valid
   \<and> validate checkedField Undefined = Invalid ''Required value missing.''"
proof -
  have h: "\<not> isOptional checkedField"
    by (simp add: isOptional_def checkedField_def AnyField_constructor_def no_opts_def)
  have c: "p_checks checkedField = definedCheck"
    by (simp add: checkedField_def AnyField_constructor_def no_opts_def)
  have u: "validate checkedField Undefined = Invalid ''Required value missing.''"
    using h by (simp add: validate_def invalid_def)
  from validate_null_delegates [OF h] h c u show ?thesis
    by (simp add: definedCheck_def)
qed

end
